theory Spec2Isabelle
  imports Main "HOL-Library.Sublist" "HOL-Library.Multiset"
begin

section \<open>Data model of \<open>src/api/main.py\<close>\<close>

text \<open>
  Python's \<open>str\<close> is a sequence of Unicode code points, and so is the text the store
  holds: a \<open>str\<close> is a list of code points, each a number (up to \<open>0x10FFFF\<close>).
  \<open>ascii\<close> writes the text of an ASCII literal.
\<close>

type_synonym codepoint = nat

type_synonym str = "codepoint list"

definition ascii :: "string \<Rightarrow> str" where
  "ascii s = map of_char s"

text \<open>
  The Pydantic schemas: \<open>PlotBase\<close> carries the four client-supplied fields,
  \<open>PlotCreate\<close> adds nothing, \<open>PlotRead\<close> adds the integer \<open>id\<close>. A row of the
  table \<open>plots\<close> (\<open>PlotModel\<close>) has the same five columns as \<open>PlotRead\<close>; with
  \<open>orm_mode\<close> the response schema is filled from the row field by field, so one record
  type serves for both. The field \<open>id\<close> is written \<open>id_pk\<close> (\<open>id\<close> is the identity
  function of HOL). \<open>Optional[str]\<close> is \<open>str option\<close>, Python's \<open>int\<close> is \<open>int\<close>.
\<close>

record PlotBase =
  title :: str
  work :: str
  status :: str
  summary :: "str option"

type_synonym PlotCreate = PlotBase

record PlotRead = PlotBase +
  id_pk :: int

type_synonym PlotModel = PlotRead

text \<open>
  What a request can end in besides its result: the \<open>HTTPException\<close> the endpoints
  raise themselves (status code and detail), Python's \<open>NameError\<close> for a name that is
  not bound (with the name), \<open>ValueError\<close> for a \<open>str\<close> that the database driver
  cannot pass to the store (its subclass \<open>UnicodeEncodeError\<close> included), and
  \<open>DataError\<close> for a value the store refuses.
\<close>

datatype error = HTTPException int string | NameError string | ValueError | DataError

text \<open>The JSON values of the two dictionaries the endpoints build by hand.\<close>

datatype json = JStr string | JInt int

section \<open>The store\<close>

text \<open>
  The table \<open>plots\<close> with the sequence behind its integer primary key. The rows are
  kept in the order the store happens to hold them; no endpoint relies on it.
\<close>

record store =
  rows :: "PlotModel list"
  next_id :: int

definition empty_store :: store where
  "empty_store = \<lparr>rows = [], next_id = 1\<rparr>"

text \<open>
  A \<open>str\<close> bound as a parameter of a statement is encoded and quoted by the driver
  before anything is sent: a surrogate code point cannot be encoded
  (\<open>UnicodeEncodeError\<close>) and a NUL character cannot be quoted (\<open>ValueError\<close>).
  \<open>adaptable\<close> holds of the texts the driver passes on.
\<close>

definition surrogate :: "codepoint \<Rightarrow> bool" where
  "surrogate c = (0xD800 \<le> c \<and> c \<le> 0xDFFF)"

definition adaptable :: "str \<Rightarrow> bool" where
  "adaptable s = list_all (\<lambda>c. c \<noteq> 0 \<and> \<not> surrogate c) s"

text \<open>
  Assignment to a \<open>String(n)\<close> column (\<open>character varying(n)\<close> in PostgreSQL, the
  backend named by \<open>DATABASE_URL\<close>): a value of at most \<open>n\<close> characters is stored as it
  is, a longer one whose excess is only spaces is cut to \<open>n\<close> characters, any other is
  refused.
\<close>

definition varchar :: "nat \<Rightarrow> str \<Rightarrow> str option" where
  "varchar n s =
     (if length s \<le> n then Some s
      else if filter (\<lambda>c. c \<noteq> 32) (drop n s) = [] then Some (take n s)
      else None)"

text \<open>The texts among the four values of a request (a null summary is none).\<close>

definition texts :: "PlotBase \<Rightarrow> str list" where
  "texts data =
     [title data, work data, status data] @ (case summary data of None \<Rightarrow> [] | Some s \<Rightarrow> [s])"

text \<open>
  The four values of a request on their way into a new row: the driver binds the texts,
  summary included, before anything is sent; the store then fits them to the columns
  \<open>title String(200)\<close>, \<open>work String(100)\<close>, \<open>status String(50)\<close> (\<open>summary\<close> is
  \<open>Text\<close>, with no limit).
\<close>

definition columns :: "PlotBase \<Rightarrow> error + PlotBase" where
  "columns data =
     (if \<not> list_all adaptable (texts data) then Inl ValueError
      else
        case varchar 200 (title data) of None \<Rightarrow> Inl DataError | Some t \<Rightarrow>
        case varchar 100 (work data) of None \<Rightarrow> Inl DataError | Some w \<Rightarrow>
        case varchar 50 (status data) of None \<Rightarrow> Inl DataError | Some s \<Rightarrow>
          Inr \<lparr>title = t, work = w, status = s, summary = summary data\<rparr>)"

text \<open>\<open>db.query(PlotModel).filter(PlotModel.id == plot_id).first()\<close>\<close>

definition query_first :: "int \<Rightarrow> store \<Rightarrow> PlotModel option" where
  "query_first plot_id db = find (\<lambda>p. id_pk p = plot_id) (rows db)"

text \<open>
  \<open>db.add(plot); db.commit(); db.refresh(plot)\<close>: one \<open>INSERT\<close> of the four values,
  whose \<open>id\<close> comes from the sequence, then the row read back.
\<close>

definition add_commit_refresh :: "PlotBase \<Rightarrow> store \<Rightarrow> error + (PlotModel \<times> store)" where
  "add_commit_refresh data db =
     (case columns data of
        Inl e \<Rightarrow> Inl e
      | Inr v \<Rightarrow>
          let plot = \<lparr>title = title v, work = work v, status = status v,
                      summary = summary v, id_pk = next_id db\<rparr>
          in Inr (plot, db\<lparr>rows := rows db @ [plot], next_id := next_id db + 1\<rparr>))"

text \<open>
  The four attribute assignments followed by \<open>db.commit(); db.refresh(plot)\<close>. The
  session writes the attributes whose new value differs from the loaded one, in one
  \<open>UPDATE plots SET ... WHERE plots.id = ...\<close> on the primary key of the loaded row,
  and reads the row back; an attribute assigned the value it had is not part of the
  statement. \<open>written\<close> are the texts the statement binds, \<open>column n old new\<close> the value
  a column of limit \<open>n\<close> holds afterwards.
\<close>

definition changed :: "'a \<Rightarrow> 'a \<Rightarrow> 'a list" where
  "changed old new = (if new = old then [] else [new])"

definition written :: "PlotModel \<Rightarrow> PlotBase \<Rightarrow> str list" where
  "written plot data =
     changed (title plot) (title data) @ changed (work plot) (work data) @
     changed (status plot) (status data) @
     (if summary data = summary plot then []
      else case summary data of None \<Rightarrow> [] | Some s \<Rightarrow> [s])"

definition column :: "nat \<Rightarrow> str \<Rightarrow> str \<Rightarrow> str option" where
  "column n old new = (if new = old then Some old else varchar n new)"

definition assign_commit_refresh ::
    "PlotModel \<Rightarrow> PlotBase \<Rightarrow> store \<Rightarrow> error + (PlotModel \<times> store)" where
  "assign_commit_refresh plot data db =
     (if \<not> list_all adaptable (written plot data) then Inl ValueError
      else
        case column 200 (title plot) (title data) of None \<Rightarrow> Inl DataError | Some t \<Rightarrow>
        case column 100 (work plot) (work data) of None \<Rightarrow> Inl DataError | Some w \<Rightarrow>
        case column 50 (status plot) (status data) of None \<Rightarrow> Inl DataError | Some s \<Rightarrow>
          let plot' = \<lparr>title = t, work = w, status = s, summary = summary data,
                       id_pk = id_pk plot\<rparr>
          in Inr (plot',
                  db\<lparr>rows := map (\<lambda>p. if id_pk p = id_pk plot then plot' else p) (rows db)\<rparr>))"

text \<open>\<open>db.delete(plot); db.commit()\<close>: \<open>DELETE FROM plots WHERE plots.id = plot_id\<close>.\<close>

definition delete_commit :: "int \<Rightarrow> store \<Rightarrow> store" where
  "delete_commit plot_id db = db\<lparr>rows := filter (\<lambda>p. id_pk p \<noteq> plot_id) (rows db)\<rparr>"

section \<open>The endpoints\<close>

text \<open>
  Every endpoint takes the store its session is bound to and returns its outcome with
  the store as the request leaves it: what was committed before an exception stays.
\<close>

definition not_found :: error where
  "not_found = HTTPException 404 ''Plot not found''"

definition get_plot :: "int \<Rightarrow> store \<Rightarrow> (error + PlotModel) \<times> store" where
  "get_plot plot_id db =
     (case query_first plot_id db of
        None \<Rightarrow> (Inl not_found, db)
      | Some plot \<Rightarrow> (Inr plot, db))"

text \<open>Line 135 returns the name \<open>plotF\<close>, which nothing binds: once the row is
  committed and refreshed, the endpoint ends in \<open>NameError\<close>.\<close>

definition create_plot :: "PlotCreate \<Rightarrow> store \<Rightarrow> (error + PlotModel) \<times> store" where
  "create_plot data db =
     (case add_commit_refresh data db of
        Inl e \<Rightarrow> (Inl e, db)
      | Inr (plot, db') \<Rightarrow> (Inl (NameError ''plotF''), db'))"

definition update_plot :: "int \<Rightarrow> PlotCreate \<Rightarrow> store \<Rightarrow> (error + PlotModel) \<times> store" where
  "update_plot plot_id data db =
     (case query_first plot_id db of
        None \<Rightarrow> (Inl not_found, db)
      | Some plot \<Rightarrow>
          (case assign_commit_refresh plot data db of
             Inl e \<Rightarrow> (Inl e, db)
           | Inr (plot', db') \<Rightarrow> (Inr plot', db')))"

definition delete_plot :: "int \<Rightarrow> store \<Rightarrow> (error + (string \<times> json) list) \<times> store" where
  "delete_plot plot_id db =
     (case query_first plot_id db of
        None \<Rightarrow> (Inl not_found, db)
      | Some plot \<Rightarrow>
          (Inr [(''message'', JStr ''deleted''), (''id'', JInt plot_id)],
           delete_commit plot_id db))"

subsection \<open>\<open>list_plots\<close>\<close>

text \<open>
  \<open>like_match pattern value\<close> is SQL's \<open>value LIKE pattern\<close> with the default escape
  character: a backslash (92) makes the next pattern character literal, \<open>%\<close> (37)
  stands for any run of characters, \<open>_\<close> (95) for any one character, anything else for
  itself. A pattern that ends in a lone backslash is an error in SQL and matches nothing
  here; the pattern of \<open>list_plots\<close> always ends in \<open>%\<close>.
\<close>

fun like_match :: "str \<Rightarrow> str \<Rightarrow> bool" where
  "like_match [] t = (t = [])"
| "like_match (c # p) t =
     (if c = 92 then
        (case p of
           [] \<Rightarrow> False
         | e # p' \<Rightarrow> (case t of [] \<Rightarrow> False | x # t' \<Rightarrow> x = e \<and> like_match p' t'))
      else if c = 37 then
        like_match p t \<or> (case t of [] \<Rightarrow> False | x # t' \<Rightarrow> like_match (c # p) t')
      else if c = 95 then
        (case t of [] \<Rightarrow> False | x # t' \<Rightarrow> like_match p t')
      else
        (case t of [] \<Rightarrow> False | x # t' \<Rightarrow> x = c \<and> like_match p t'))"

text \<open>
  \<open>ILIKE\<close> folds the case of the pattern and of the value, character by character, and
  matches them with \<open>LIKE\<close>. Which characters are letters, and what the lower case of each
  is, is decided by the locale of the database: the folding is the parameter \<open>lower\<close>.
  A column that is \<open>NULL\<close> makes the comparison \<open>NULL\<close> (\<open>None\<close>), and \<open>OR\<close> is SQL's
  three-valued one; a \<open>WHERE\<close> clause keeps the rows where it is true.
\<close>

fun ilike :: "(codepoint \<Rightarrow> codepoint) \<Rightarrow> str option \<Rightarrow> str \<Rightarrow> bool option" where
  "ilike lower None pattern = None"
| "ilike lower (Some v) pattern = Some (like_match (map lower pattern) (map lower v))"

fun sql_or :: "bool option \<Rightarrow> bool option \<Rightarrow> bool option" where
  "sql_or (Some True) b = Some True"
| "sql_or a (Some True) = Some True"
| "sql_or (Some False) (Some False) = Some False"
| "sql_or a b = None"

text \<open>\<open>if v: query = query.filter(cond)\<close>: \<open>None\<close> and the empty string are both
  false in Python, so neither adds a condition.\<close>

fun filter_if :: "str option \<Rightarrow> (str \<Rightarrow> PlotModel \<Rightarrow> bool) \<Rightarrow> PlotModel list \<Rightarrow> PlotModel list" where
  "filter_if None cond query = query"
| "filter_if (Some v) cond query = (if v = [] then query else filter (cond v) query)"

definition work_is :: "str \<Rightarrow> PlotModel \<Rightarrow> bool" where
  "work_is v p = (work p = v)"

definition status_is :: "str \<Rightarrow> PlotModel \<Rightarrow> bool" where
  "status_is v p = (status p = v)"

text \<open>\<open>like = f"%{q}%"\<close> and
  \<open>PlotModel.title.ilike(like) | PlotModel.summary.ilike(like)\<close>.\<close>

definition title_or_summary_ilike :: "(codepoint \<Rightarrow> codepoint) \<Rightarrow> str \<Rightarrow> PlotModel \<Rightarrow> bool" where
  "title_or_summary_ilike lower v p =
     (let like = [37] @ v @ [37]
      in sql_or (ilike lower (Some (title p)) like) (ilike lower (summary p) like) = Some True)"

text \<open>The text a filter binds as a parameter of the query, if the filter is applied.\<close>

fun bound :: "str option \<Rightarrow> str list" where
  "bound None = []"
| "bound (Some v) = (if v = [] then [] else [v])"

text \<open>
  \<open>query.order_by(PlotModel.id.asc()).all()\<close> runs the query that the three guards
  have built: the driver binds the texts of the filters applied (\<open>q\<close> inside its
  pattern, twice) and the store returns the rows that pass, by ascending \<open>id\<close>.
\<close>

definition list_plots ::
    "(codepoint \<Rightarrow> codepoint) \<Rightarrow> str option \<Rightarrow> str option \<Rightarrow> str option \<Rightarrow> store \<Rightarrow>
     (error + PlotModel list) \<times> store" where
  "list_plots lower work_q status_q q db =
     (let query = rows db;
          query = filter_if work_q work_is query;
          query = filter_if status_q status_is query;
          query = filter_if q (title_or_summary_ilike lower) query
      in if \<not> list_all adaptable (bound work_q @ bound status_q @ bound q)
         then (Inl ValueError, db)
         else (Inr (sort_key id_pk query), db))"

subsection \<open>Requests and the session of each\<close>

text \<open>
  The process holds the store and the sessions that are open. \<open>SessionLocal()\<close> opens a
  new one; \<open>db.close()\<close> ends it.
\<close>

record server =
  database :: store
  open_sessions :: "nat list"
  next_session :: nat

definition SessionLocal :: "server \<Rightarrow> nat \<times> server" where
  "SessionLocal sv =
     (next_session sv,
      sv\<lparr>open_sessions := next_session sv # open_sessions sv,
         next_session := Suc (next_session sv)\<rparr>)"

definition db_close :: "nat \<Rightarrow> server \<Rightarrow> server" where
  "db_close db sv = sv\<lparr>open_sessions := removeAll db (open_sessions sv)\<rparr>"

text \<open>
  \<open>Depends(get_db)\<close>: the generator opens the session, the endpoint runs on it, and the
  \<open>finally\<close> clause closes it whether the endpoint returned or raised.
\<close>

definition get_db :: "(store \<Rightarrow> (error + 'a) \<times> store) \<Rightarrow> server \<Rightarrow> (error + 'a) \<times> server" where
  "get_db endpoint sv =
     (let (db, sv') = SessionLocal sv
      in case endpoint (database sv') of
           (Inl e, st) \<Rightarrow> (Inl e, db_close db (sv'\<lparr>database := st\<rparr>))
         | (Inr r, st) \<Rightarrow> (Inr r, db_close db (sv'\<lparr>database := st\<rparr>)))"

datatype request =
    Ping
  | ListPlots "str option" "str option" "str option"
  | GetPlot int
  | CreatePlot PlotCreate
  | UpdatePlot int PlotCreate
  | DeletePlot int

datatype response =
    Object "(string \<times> json) list"
  | Plot PlotRead
  | Plots "PlotRead list"

definition ping :: "(string \<times> json) list" where
  "ping = [(''message'', JStr ''pong'')]"

definition returning :: "('a \<Rightarrow> response) \<Rightarrow> (error + 'a) \<times> store \<Rightarrow> (error + response) \<times> store" where
  "returning body r = (map_sum (\<lambda>e. e) body (fst r), snd r)"

text \<open>The routes of the application, on a database whose locale folds case by
  \<open>lower\<close>.\<close>

fun route :: "(codepoint \<Rightarrow> codepoint) \<Rightarrow> request \<Rightarrow> server \<Rightarrow> (error + response) \<times> server" where
  "route lower Ping sv = (Inr (Object ping), sv)"
| "route lower (ListPlots work_q status_q q) sv =
     get_db (\<lambda>db. returning Plots (list_plots lower work_q status_q q db)) sv"
| "route lower (GetPlot plot_id) sv = get_db (\<lambda>db. returning Plot (get_plot plot_id db)) sv"
| "route lower (CreatePlot data) sv = get_db (\<lambda>db. returning Plot (create_plot data db)) sv"
| "route lower (UpdatePlot plot_id data) sv =
     get_db (\<lambda>db. returning Plot (update_plot plot_id data db)) sv"
| "route lower (DeletePlot plot_id) sv =
     get_db (\<lambda>db. returning Object (delete_plot plot_id db)) sv"

text \<open>The requests of a list served one after the other.\<close>

fun run :: "(codepoint \<Rightarrow> codepoint) \<Rightarrow> request list \<Rightarrow> server \<Rightarrow> server" where
  "run lower [] sv = sv"
| "run lower (r # rs) sv = run lower rs (snd (route lower r sv))"

definition initial_server :: server where
  "initial_server = \<lparr>database = empty_store, open_sessions = [], next_session = 0\<rparr>"

text \<open>The folding of the examples: the 26 letters of ASCII, as in the \<open>C\<close> locale.\<close>

definition ascii_lower :: "codepoint \<Rightarrow> codepoint" where
  "ascii_lower c = (if 65 \<le> c \<and> c \<le> 90 then c + 32 else c)"

section \<open>Predicates of the properties\<close>

text \<open>The primary key: no two rows share an \<open>id\<close>, and every \<open>id\<close> was handed out
  by the sequence.\<close>

definition primary_key :: "store \<Rightarrow> bool" where
  "primary_key db = distinct (map id_pk (rows db))"

definition wf_store :: "store \<Rightarrow> bool" where
  "wf_store db = (primary_key db \<and> filter (\<lambda>p. next_id db \<le> id_pk p) (rows db) = [])"

text \<open>A request body whose values fit the declared columns, and one that the store can
  hold: it fits, and the driver can bind each of its texts.\<close>

definition fits_columns :: "PlotBase \<Rightarrow> bool" where
  "fits_columns data =
     (length (title data) \<le> 200 \<and> length (work data) \<le> 100 \<and> length (status data) \<le> 50)"

definition storable :: "PlotBase \<Rightarrow> bool" where
  "storable data = (fits_columns data \<and> list_all adaptable (texts data))"

text \<open>The characters that \<open>LIKE\<close> does not read literally, and a \<open>q\<close> without them.\<close>

definition wildcard :: "codepoint \<Rightarrow> bool" where
  "wildcard c = (c = 37 \<or> c = 95 \<or> c = 92)"

fun literal :: "str option \<Rightarrow> bool" where
  "literal None = True"
| "literal (Some v) = (filter wildcard v = [])"

text \<open>What is assumed of the locale: folding the case changes letters only. It leaves
  \<open>%\<close>, \<open>_\<close> and the backslash as they are and turns no other character into one of
  them.\<close>

definition folds_letters :: "(codepoint \<Rightarrow> codepoint) \<Rightarrow> bool" where
  "folds_letters lower = (\<forall>c. wildcard c \<or> wildcard (lower c) \<longrightarrow> lower c = c)"

text \<open>
  The filter of the specification, in its words: each filter that is given must hold,
  \<open>work\<close> and \<open>status\<close> by equality, \<open>q\<close> as a substring of the title or of the
  summary with the case of letters ignored, that is, once both are folded.
\<close>

definition contains_ci :: "(codepoint \<Rightarrow> codepoint) \<Rightarrow> str \<Rightarrow> str \<Rightarrow> bool" where
  "contains_ci lower v q = sublist (map lower q) (map lower v)"

fun given :: "'a option \<Rightarrow> ('a \<Rightarrow> bool) \<Rightarrow> bool" where
  "given None cond = True"
| "given (Some v) cond = cond v"

definition satisfies ::
    "(codepoint \<Rightarrow> codepoint) \<Rightarrow> str option \<Rightarrow> str option \<Rightarrow> str option \<Rightarrow> PlotModel \<Rightarrow> bool" where
  "satisfies lower work_q status_q q p =
     (given work_q (\<lambda>v. work p = v) \<and>
      given status_q (\<lambda>v. status p = v) \<and>
      given q (\<lambda>v. contains_ci lower (title p) v \<or>
                   (case summary p of None \<Rightarrow> False | Some s \<Rightarrow> contains_ci lower s v)))"

text \<open>
  The rows \<open>list_plots\<close> keeps: \<open>selects v cond\<close> is the condition that
  \<open>filter_if v cond\<close> imposes on a row, \<open>matches\<close> the three of them together.
\<close>

fun selects :: "str option \<Rightarrow> (str \<Rightarrow> PlotModel \<Rightarrow> bool) \<Rightarrow> PlotModel \<Rightarrow> bool" where
  "selects None cond p = True"
| "selects (Some v) cond p = (if v = [] then True else cond v p)"

definition matches ::
    "(codepoint \<Rightarrow> codepoint) \<Rightarrow> str option \<Rightarrow> str option \<Rightarrow> str option \<Rightarrow> PlotModel \<Rightarrow> bool" where
  "matches lower work_q status_q q p =
     (selects work_q work_is p \<and> selects status_q status_is p \<and>
      selects q (title_or_summary_ilike lower) p)"

text \<open>The list request whose applied filters the driver can bind.\<close>

definition bindable :: "str option \<Rightarrow> str option \<Rightarrow> str option \<Rightarrow> bool" where
  "bindable work_q status_q q = list_all adaptable (bound work_q @ bound status_q @ bound q)"

text \<open>Every open session was handed out by \<open>SessionLocal\<close>.\<close>

definition sessions_wf :: "server \<Rightarrow> bool" where
  "sessions_wf sv = (filter (\<lambda>db. next_session sv \<le> db) (open_sessions sv) = [])"

text \<open>A filter given as the empty string counts as not given.\<close>

fun effective :: "str option \<Rightarrow> str option" where
  "effective None = None"
| "effective (Some v) = (if v = [] then None else Some v)"

section \<open>Unknown ids\<close>

lemma query_first_None: "query_first plot_id db = None \<longleftrightarrow> plot_id \<notin> id_pk ` set (rows db)"
  by (auto simp: query_first_def find_None_iff)

lemma query_first_id: "query_first plot_id db = Some plot \<Longrightarrow> id_pk plot = plot_id"
  by (auto simp: query_first_def find_Some_iff)

text \<open>
  C4. For an id that no row of the store has, get, update and delete each end in the
  \<open>HTTPException\<close> with status 404 and the detail \<open>Plot not found\<close>, whatever the
  request body, and leave the store as it was.
\<close>

theorem unknown_id_not_found:
  assumes "plot_id \<notin> id_pk ` set (rows db)"
  shows "get_plot plot_id db = (Inl (HTTPException 404 ''Plot not found''), db)
       \<and> update_plot plot_id data db = (Inl (HTTPException 404 ''Plot not found''), db)
       \<and> delete_plot plot_id db = (Inl (HTTPException 404 ''Plot not found''), db)"
proof -
  from assms have "query_first plot_id db = None"
    by (simp add: query_first_None)
  then show ?thesis
    by (simp add: get_plot_def update_plot_def delete_plot_def not_found_def)
qed

theorem unknown_id_not_found_witness:
  "7 \<notin> id_pk ` set (rows
       \<lparr>rows = [\<lparr>title = ascii ''a'', work = ascii ''A'', status = ascii ''open'',
                  summary = None, id_pk = 1\<rparr>],
        next_id = 2\<rparr>)
 \<and> fst (get_plot 7
       \<lparr>rows = [\<lparr>title = ascii ''a'', work = ascii ''A'', status = ascii ''open'',
                  summary = None, id_pk = 1\<rparr>],
        next_id = 2\<rparr>)
     = Inl (HTTPException 404 ''Plot not found'')
 \<and> fst (update_plot 7
       \<lparr>title = ascii ''t'', work = ascii ''w'', status = ascii ''s'', summary = None\<rparr>
       \<lparr>rows = [\<lparr>title = ascii ''a'', work = ascii ''A'', status = ascii ''open'',
                  summary = None, id_pk = 1\<rparr>],
        next_id = 2\<rparr>)
     = Inl (HTTPException 404 ''Plot not found'')
 \<and> fst (delete_plot 7
       \<lparr>rows = [\<lparr>title = ascii ''a'', work = ascii ''A'', status = ascii ''open'',
                  summary = None, id_pk = 1\<rparr>],
        next_id = 2\<rparr>)
     = Inl (HTTPException 404 ''Plot not found'')"
proof -
  let ?db = "\<lparr>rows = [\<lparr>title = ascii ''a'', work = ascii ''A'', status = ascii ''open'',
                  summary = None, id_pk = 1\<rparr>],
        next_id = 2\<rparr>"
  have h: "7 \<notin> id_pk ` set (rows ?db)"
    by simp
  from unknown_id_not_found[OF h,
      of "\<lparr>title = ascii ''t'', work = ascii ''w'', status = ascii ''s'', summary = None\<rparr>"] h
  show ?thesis by simp
qed

section \<open>\<open>LIKE\<close> on patterns without wildcards\<close>

lemma folds_percent: "folds_letters lower \<Longrightarrow> lower 37 = 37"
  by (simp add: folds_letters_def wildcard_def)

lemma folds_wildcard: "folds_letters lower \<Longrightarrow> wildcard (lower c) = wildcard c"
  unfolding folds_letters_def by metis

lemma filter_wildcard_lower:
  "folds_letters lower \<Longrightarrow> filter wildcard (map lower q) = [] \<longleftrightarrow> filter wildcard q = []"
  by (induction q) (simp_all add: folds_wildcard)

lemma folds_letters_ascii_lower: "folds_letters ascii_lower"
  by (auto simp: folds_letters_def ascii_lower_def wildcard_def)

lemma like_percent_all: "like_match [37] t"
  by (induction t) auto

lemma like_literal_Nil: "\<not> wildcard c \<Longrightarrow> like_match (c # p) [] = False"
  by (simp add: wildcard_def)

lemma like_literal_Cons: "\<not> wildcard c \<Longrightarrow> like_match (c # p) (x # t) = (x = c \<and> like_match p t)"
  by (simp add: wildcard_def)

lemma like_percent_step:
  "like_match (37 # p) t = (like_match p t \<or> (t \<noteq> [] \<and> like_match (37 # p) (tl t)))"
  by (cases t) auto

lemma like_literal_prefix:
  "filter wildcard q = [] \<Longrightarrow> like_match (q @ [37]) t = prefix q t"
proof (induction q arbitrary: t)
  case Nil
  show ?case by (simp add: like_percent_all del: like_match.simps)
next
  case (Cons c q)
  then have c: "\<not> wildcard c" and q: "filter wildcard q = []"
    by (simp_all split: if_splits)
  show ?case
  proof (cases t)
    case Nil
    then show ?thesis using like_literal_Nil[OF c] by (simp del: like_match.simps)
  next
    case (Cons x t')
    then show ?thesis using like_literal_Cons[OF c] Cons.IH[OF q]
      by (auto simp del: like_match.simps)
  qed
qed

lemma like_contains:
  assumes "filter wildcard q = []"
  shows "like_match (37 # q @ [37]) t = sublist q t"
proof (induction t)
  case Nil
  show ?case
    using like_literal_prefix[OF assms, of "[]"] like_percent_step[of "q @ [37]" "[]"]
    by (simp del: like_match.simps)
next
  case (Cons x t)
  show ?case
    using Cons like_literal_prefix[OF assms, of "x # t"] like_percent_step[of "q @ [37]" "x # t"]
    by (simp del: like_match.simps add: sublist_Cons_right)
qed

lemma ilike_contains:
  assumes "folds_letters lower" and "filter wildcard q = []"
  shows "ilike lower (Some v) ([37] @ q @ [37]) = Some (contains_ci lower v q)"
  using like_contains[of "map lower q" "map lower v"] assms
  by (simp add: contains_ci_def folds_percent filter_wildcard_lower del: like_match.simps)

lemma title_or_summary_contains:
  assumes "folds_letters lower" and "filter wildcard q = []"
  shows "title_or_summary_ilike lower q p =
           (contains_ci lower (title p) q \<or>
            (case summary p of None \<Rightarrow> False | Some s \<Rightarrow> contains_ci lower s q))"
proof -
  have t: "ilike lower (Some (title p)) ([37] @ q @ [37]) = Some (contains_ci lower (title p) q)"
    by (rule ilike_contains[OF assms])
  show ?thesis
  proof (cases "summary p")
    case None
    then have s: "ilike lower (summary p) ([37] @ q @ [37]) = None"
      by (simp only: ilike.simps)
    show ?thesis
      unfolding title_or_summary_ilike_def Let_def t s
      using None by (cases "contains_ci lower (title p) q") simp_all
  next
    case (Some v)
    then have s: "ilike lower (summary p) ([37] @ q @ [37]) = Some (contains_ci lower v q)"
      by (simp only: ilike_contains[OF assms])
    show ?thesis
      unfolding title_or_summary_ilike_def Let_def t s
      using Some by (cases "contains_ci lower (title p) q"; cases "contains_ci lower v q") simp_all
  qed
qed

section \<open>The rows \<open>list_plots\<close> returns\<close>

lemma filter_if_selects: "filter_if v cond query = filter (selects v cond) query"
proof (cases v)
  case None
  then show ?thesis by simp
next
  case (Some a)
  have "selects (Some a) cond = (if a = [] then (\<lambda>p. True) else cond a)"
    by (auto simp: fun_eq_iff)
  with Some show ?thesis by simp
qed

lemma list_plots_query:
  "list_plots lower work_q status_q q db =
     (if bindable work_q status_q q
      then (Inr (sort_key id_pk (filter (matches lower work_q status_q q) (rows db))), db)
      else (Inl ValueError, db))"
proof -
  have "matches lower work_q status_q q =
          (\<lambda>p. selects work_q work_is p \<and> selects status_q status_is p \<and>
               selects q (title_or_summary_ilike lower) p)"
    by (auto simp: matches_def fun_eq_iff)
  then show ?thesis
    by (simp add: list_plots_def filter_if_selects bindable_def)
qed

text \<open>A filter that is applied and that the driver cannot bind (it holds a NUL character
  or a surrogate) ends the request in \<open>ValueError\<close>; any other request returns the
  rows that match, by ascending \<open>id\<close>.\<close>

lemma list_plots_unbindable:
  "\<not> bindable work_q status_q q \<Longrightarrow>
   list_plots lower work_q status_q q db = (Inl ValueError, db)"
  by (simp add: list_plots_query)

lemma list_plots_matches:
  "bindable work_q status_q q \<Longrightarrow>
   list_plots lower work_q status_q q db =
     (Inr (sort_key id_pk (filter (matches lower work_q status_q q) (rows db))), db)"
  by (simp add: list_plots_query)

lemma selects_effective: "selects v cond p = given (effective v) (\<lambda>x. cond x p)"
  by (cases v) simp_all

lemma matches_satisfies:
  assumes "folds_letters lower" and "literal q"
  shows "matches lower work_q status_q q p =
           satisfies lower (effective work_q) (effective status_q) (effective q) p"
proof -
  have "selects q (title_or_summary_ilike lower) p =
        given (effective q) (\<lambda>v. contains_ci lower (title p) v \<or>
                   (case summary p of None \<Rightarrow> False | Some s \<Rightarrow> contains_ci lower s v))"
  proof (cases q)
    case None
    then show ?thesis by simp
  next
    case (Some v)
    with assms have "filter wildcard v = []" by simp
    from title_or_summary_contains[OF assms(1) this] Some show ?thesis by simp
  qed
  then show ?thesis
    by (simp add: matches_def satisfies_def selects_effective work_is_def status_is_def)
qed

text \<open>The two examples of the specification: of three plots with (work, status) =
  (A, closed), (B, open), (A, open), the filters \<open>work=A\<close> and \<open>status=open\<close> keep the
  last; the title \<open>Dragon Rises\<close> is found by \<open>q=dragon\<close> and not by \<open>q=zzz\<close>.\<close>

lemma list_plots_filter_example:
  "fst (list_plots ascii_lower (Some (ascii ''A'')) (Some (ascii ''open'')) None
     \<lparr>rows = [\<lparr>title = ascii ''x'', work = ascii ''A'', status = ascii ''closed'',
                summary = None, id_pk = 3\<rparr>,
              \<lparr>title = ascii ''y'', work = ascii ''B'', status = ascii ''open'',
                summary = None, id_pk = 2\<rparr>,
              \<lparr>title = ascii ''z'', work = ascii ''A'', status = ascii ''open'',
                summary = None, id_pk = 1\<rparr>],
      next_id = 4\<rparr>)
   = Inr [\<lparr>title = ascii ''z'', work = ascii ''A'', status = ascii ''open'',
           summary = None, id_pk = 1\<rparr>]"
  by (simp add: list_plots_def work_is_def status_is_def ascii_def adaptable_def surrogate_def)

lemma list_plots_search_example:
  "fst (list_plots ascii_lower None None (Some (ascii ''dragon''))
     \<lparr>rows = [\<lparr>title = ascii ''Dragon Rises'', work = ascii ''A'', status = ascii ''open'',
                summary = None, id_pk = 1\<rparr>],
      next_id = 2\<rparr>)
   = Inr [\<lparr>title = ascii ''Dragon Rises'', work = ascii ''A'', status = ascii ''open'',
           summary = None, id_pk = 1\<rparr>]
 \<and> fst (list_plots ascii_lower None None (Some (ascii ''zzz''))
     \<lparr>rows = [\<lparr>title = ascii ''Dragon Rises'', work = ascii ''A'', status = ascii ''open'',
                summary = None, id_pk = 1\<rparr>],
      next_id = 2\<rparr>)
   = Inr []"
  by (simp add: list_plots_def title_or_summary_ilike_def ascii_lower_def ascii_def
        adaptable_def surrogate_def)

text \<open>
  C2, as stated, fails where a filter is given as the empty string: with \<open>work\<close> given
  as the empty string the request returns a plot whose \<open>work\<close> is \<open>A\<close>, which does not
  equal the given value.
\<close>

theorem list_plots_empty_work_counterexample:
  "list_plots ascii_lower (Some []) None None
     \<lparr>rows = [\<lparr>title = ascii ''T'', work = ascii ''A'', status = ascii ''open'',
                summary = None, id_pk = 1\<rparr>],
      next_id = 2\<rparr>
   = (Inr [\<lparr>title = ascii ''T'', work = ascii ''A'', status = ascii ''open'',
            summary = None, id_pk = 1\<rparr>],
      \<lparr>rows = [\<lparr>title = ascii ''T'', work = ascii ''A'', status = ascii ''open'',
                 summary = None, id_pk = 1\<rparr>],
       next_id = 2\<rparr>)
 \<and> \<not> satisfies ascii_lower (Some []) None None
       \<lparr>title = ascii ''T'', work = ascii ''A'', status = ascii ''open'',
        summary = None, id_pk = 1\<rparr>"
  by (simp add: list_plots_def satisfies_def ascii_def)

text \<open>
  \<open>q\<close> is spliced into the \<open>LIKE\<close> pattern as it is, so a \<open>%\<close>, \<open>_\<close> or backslash
  in it is read as a wildcard or an escape: \<open>q = _\<close> finds the title \<open>abc\<close>, which
  does not contain an underscore.
\<close>

lemma list_plots_underscore_example:
  "fst (list_plots ascii_lower None None (Some (ascii ''_''))
     \<lparr>rows = [\<lparr>title = ascii ''abc'', work = ascii ''A'', status = ascii ''open'',
                summary = None, id_pk = 1\<rparr>],
      next_id = 2\<rparr>)
   = Inr [\<lparr>title = ascii ''abc'', work = ascii ''A'', status = ascii ''open'',
           summary = None, id_pk = 1\<rparr>]
 \<and> \<not> contains_ci ascii_lower (ascii ''abc'') (ascii ''_'')"
  by (simp add: list_plots_def title_or_summary_ilike_def ascii_lower_def ascii_def
        adaptable_def surrogate_def contains_ci_def sublist_code prefix_code)

text \<open>
  C2 (amended). On a database whose locale folds letters only, for every list request
  whose applied filters the driver can bind (none holds a NUL character or a surrogate)
  and whose \<open>q\<close>, if given, has no \<open>%\<close>, \<open>_\<close> or backslash, the request returns a
  list, and a plot is in it if and only if it is stored and satisfies every filter that
  is given and not the empty string: \<open>work\<close> equal to the given work, \<open>status\<close> equal to
  the given status, and \<open>q\<close> a substring of the title or of the (non-null) summary, the
  case of letters ignored.
\<close>

theorem list_plots_filters:
  assumes "folds_letters lower" and "literal q" and "bindable work_q status_q q"
  shows "\<exists>plots. list_plots lower work_q status_q q db = (Inr plots, db) \<and>
           (\<forall>p. p \<in> set plots \<longleftrightarrow>
                p \<in> set (rows db) \<and>
                satisfies lower (effective work_q) (effective status_q) (effective q) p)"
  using matches_satisfies[OF assms(1,2)]
  by (auto simp: list_plots_matches[OF assms(3)])

theorem list_plots_filters_witness:
  "folds_letters ascii_lower
 \<and> literal (Some (ascii ''drag''))
 \<and> bindable (Some (ascii ''A'')) (Some (ascii ''open'')) (Some (ascii ''drag''))
 \<and> (\<exists>plots. list_plots ascii_lower (Some (ascii ''A'')) (Some (ascii ''open''))
              (Some (ascii ''drag''))
              \<lparr>rows = [\<lparr>title = ascii ''Dragon'', work = ascii ''A'', status = ascii ''open'',
                         summary = None, id_pk = 1\<rparr>],
               next_id = 2\<rparr>
            = (Inr plots,
               \<lparr>rows = [\<lparr>title = ascii ''Dragon'', work = ascii ''A'', status = ascii ''open'',
                          summary = None, id_pk = 1\<rparr>],
                next_id = 2\<rparr>) \<and>
      (\<forall>p. p \<in> set plots \<longleftrightarrow>
           p \<in> set (rows \<lparr>rows = [\<lparr>title = ascii ''Dragon'', work = ascii ''A'',
                                     status = ascii ''open'', summary = None, id_pk = 1\<rparr>],
                          next_id = 2\<rparr>) \<and>
           satisfies ascii_lower (effective (Some (ascii ''A''))) (effective (Some (ascii ''open'')))
             (effective (Some (ascii ''drag''))) p))"
proof -
  have l: "literal (Some (ascii ''drag''))"
    by (simp add: wildcard_def ascii_def)
  have b: "bindable (Some (ascii ''A'')) (Some (ascii ''open'')) (Some (ascii ''drag''))"
    by (simp add: bindable_def adaptable_def surrogate_def ascii_def)
  from list_plots_filters[OF folds_letters_ascii_lower l b] folds_letters_ascii_lower l b
  show ?thesis by blast
qed

text \<open>
  C10. A filter given as the empty string is treated as not given, each of the three
  alone and whatever the other two are; \<open>work\<close> given as the empty string with no other
  filter returns every plot.
\<close>

theorem empty_filter_ignored:
  "list_plots lower (Some []) status_q q db = list_plots lower None status_q q db
 \<and> list_plots lower work_q (Some []) q db = list_plots lower work_q None q db
 \<and> list_plots lower work_q status_q (Some []) db = list_plots lower work_q status_q None db
 \<and> list_plots lower (Some []) None None db = (Inr (sort_key id_pk (rows db)), db)"
  by (simp add: list_plots_def)

subsection \<open>Order\<close>







text \<open>
  C8. A list request leaves the store as it found it, so the same request on the store
  it leaves returns the same list in the same order; through the request layer, where
  each request opens and closes a session of its own, the second response equals the
  first.
\<close>

theorem list_plots_repeat:
  "list_plots lower work_q status_q q (snd (list_plots lower work_q status_q q db))
     = list_plots lower work_q status_q q db
 \<and> fst (route lower (ListPlots work_q status_q q)
          (snd (route lower (ListPlots work_q status_q q) sv)))
     = fst (route lower (ListPlots work_q status_q q) sv)"
  by (simp add: list_plots_query get_db_def SessionLocal_def db_close_def returning_def)

section \<open>Update\<close>

lemma varchar_fits: "length s \<le> n \<Longrightarrow> varchar n s = Some s"
  by (simp add: varchar_def)

lemma column_fits: "length new \<le> n \<Longrightarrow> column n old new = Some new"
  by (simp add: column_def varchar_fits)

lemma columns_storable: "storable data \<Longrightarrow> columns data = Inr data"
  by (simp add: storable_def fits_columns_def columns_def varchar_fits)

lemma written_texts: "set (written plot data) \<subseteq> set (texts data)"
  by (auto simp: written_def texts_def changed_def split: option.splits if_splits)

lemma storable_written: "storable data \<Longrightarrow> list_all adaptable (written plot data)"
  using written_texts[of plot data] by (auto simp: storable_def list_all_iff)

lemma find_map_update:
  "find (\<lambda>p. id_pk p = n) xs = Some p \<Longrightarrow> id_pk r = n \<Longrightarrow>
   find (\<lambda>p. id_pk p = n) (map (\<lambda>p. if id_pk p = n then r else p) xs) = Some r"
  by (induction xs) (auto split: if_splits)

lemma ids_map_update:
  "id_pk r = n \<Longrightarrow> map id_pk (map (\<lambda>p. if id_pk p = n then r else p) xs) = map id_pk xs"
  by (induction xs) auto

lemma others_map_update:
  "id_pk r = n \<Longrightarrow>
   filter (\<lambda>p. id_pk p \<noteq> n) (map (\<lambda>p. if id_pk p = n then r else p) xs)
     = filter (\<lambda>p. id_pk p \<noteq> n) xs"
  by (induction xs) auto

lemma assign_storable:
  assumes "storable data"
  shows "assign_commit_refresh plot data db =
     Inr (\<lparr>title = title data, work = work data, status = status data,
           summary = summary data, id_pk = id_pk plot\<rparr>,
          db\<lparr>rows := map (\<lambda>p. if id_pk p = id_pk plot
                               then \<lparr>title = title data, work = work data, status = status data,
                                     summary = summary data, id_pk = id_pk plot\<rparr>
                               else p) (rows db)\<rparr>)"
  using assms storable_written[OF assms, of plot]
  by (simp add: assign_commit_refresh_def storable_def fits_columns_def column_fits Let_def)

text \<open>
  C5, as stated, fails for a body that holds a NUL character: the body that changes
  only the summary of plot 1, to the one character NUL, fits the columns, and the update
  ends in \<open>ValueError\<close> with the row as it was.
\<close>

theorem update_plot_nul_counterexample:
  "query_first 1
     \<lparr>rows = [\<lparr>title = ascii ''a'', work = ascii ''A'', status = ascii ''open'',
                summary = None, id_pk = 1\<rparr>],
      next_id = 2\<rparr>
   = Some \<lparr>title = ascii ''a'', work = ascii ''A'', status = ascii ''open'',
           summary = None, id_pk = 1\<rparr>
 \<and> fits_columns \<lparr>title = ascii ''a'', work = ascii ''A'', status = ascii ''open'',
                  summary = Some [0]\<rparr>
 \<and> update_plot 1
     \<lparr>title = ascii ''a'', work = ascii ''A'', status = ascii ''open'', summary = Some [0]\<rparr>
     \<lparr>rows = [\<lparr>title = ascii ''a'', work = ascii ''A'', status = ascii ''open'',
                summary = None, id_pk = 1\<rparr>],
      next_id = 2\<rparr>
   = (Inl ValueError,
      \<lparr>rows = [\<lparr>title = ascii ''a'', work = ascii ''A'', status = ascii ''open'',
                 summary = None, id_pk = 1\<rparr>],
       next_id = 2\<rparr>)"
  by (simp add: query_first_def fits_columns_def update_plot_def assign_commit_refresh_def
        written_def changed_def adaptable_def ascii_def)

text \<open>
  C5 (amended). For every stored plot with id \<open>N\<close> and every request body that the
  store can hold (title at most 200, work at most 100, status at most 50 characters, and
  no NUL character or surrogate in any of its texts), update on \<open>N\<close> returns, and stores
  under \<open>N\<close>, the record with exactly the four values of the request (a summary that is
  absent or null becomes null) and the id \<open>N\<close>; the ids of the table and every other
  row stay as they were.
\<close>

theorem update_plot_replaces:
  assumes "query_first plot_id db = Some plot" and "storable data"
  shows "\<exists>db'. update_plot plot_id data db =
            (Inr \<lparr>title = title data, work = work data, status = status data,
                  summary = summary data, id_pk = plot_id\<rparr>, db')
          \<and> query_first plot_id db' =
              Some \<lparr>title = title data, work = work data, status = status data,
                    summary = summary data, id_pk = plot_id\<rparr>
          \<and> map id_pk (rows db') = map id_pk (rows db)
          \<and> filter (\<lambda>p. id_pk p \<noteq> plot_id) (rows db') = filter (\<lambda>p. id_pk p \<noteq> plot_id) (rows db)"
proof -
  let ?r = "\<lparr>title = title data, work = work data, status = status data,
             summary = summary data, id_pk = plot_id\<rparr>"
  let ?db' = "db\<lparr>rows := map (\<lambda>p. if id_pk p = plot_id then ?r else p) (rows db)\<rparr>"
  have k: "id_pk plot = plot_id"
    using assms(1) by (rule query_first_id)
  have u: "update_plot plot_id data db = (Inr ?r, ?db')"
    using assms(1) k by (simp add: update_plot_def assign_storable[OF assms(2)])
  have f: "query_first plot_id ?db' = Some ?r"
    using assms(1) find_map_update[of plot_id "rows db" plot ?r]
    by (simp add: query_first_def)
  have i: "map id_pk (rows ?db') = map id_pk (rows db)"
    using ids_map_update[of ?r plot_id "rows db"] by simp
  have o: "filter (\<lambda>p. id_pk p \<noteq> plot_id) (rows ?db') = filter (\<lambda>p. id_pk p \<noteq> plot_id) (rows db)"
    using others_map_update[of ?r plot_id "rows db"] by simp
  from u f i o show ?thesis by blast
qed

theorem update_plot_replaces_witness:
  "query_first 2
     \<lparr>rows = [\<lparr>title = ascii ''a'', work = ascii ''A'', status = ascii ''open'',
                summary = Some (ascii ''s''), id_pk = 1\<rparr>,
              \<lparr>title = ascii ''b'', work = ascii ''B'', status = ascii ''open'',
                summary = Some (ascii ''old''), id_pk = 2\<rparr>],
      next_id = 3\<rparr>
   = Some \<lparr>title = ascii ''b'', work = ascii ''B'', status = ascii ''open'',
           summary = Some (ascii ''old''), id_pk = 2\<rparr>
 \<and> storable \<lparr>title = ascii ''c'', work = ascii ''B'', status = ascii ''done'', summary = None\<rparr>
 \<and> update_plot 2
     \<lparr>title = ascii ''c'', work = ascii ''B'', status = ascii ''done'', summary = None\<rparr>
     \<lparr>rows = [\<lparr>title = ascii ''a'', work = ascii ''A'', status = ascii ''open'',
                summary = Some (ascii ''s''), id_pk = 1\<rparr>,
              \<lparr>title = ascii ''b'', work = ascii ''B'', status = ascii ''open'',
                summary = Some (ascii ''old''), id_pk = 2\<rparr>],
      next_id = 3\<rparr>
   = (Inr \<lparr>title = ascii ''c'', work = ascii ''B'', status = ascii ''done'',
           summary = None, id_pk = 2\<rparr>,
      \<lparr>rows = [\<lparr>title = ascii ''a'', work = ascii ''A'', status = ascii ''open'',
                 summary = Some (ascii ''s''), id_pk = 1\<rparr>,
               \<lparr>title = ascii ''c'', work = ascii ''B'', status = ascii ''done'',
                 summary = None, id_pk = 2\<rparr>],
       next_id = 3\<rparr>)"
proof -
  let ?db = "\<lparr>rows = [\<lparr>title = ascii ''a'', work = ascii ''A'', status = ascii ''open'',
                summary = Some (ascii ''s''), id_pk = 1\<rparr>,
              \<lparr>title = ascii ''b'', work = ascii ''B'', status = ascii ''open'',
                summary = Some (ascii ''old''), id_pk = 2\<rparr>],
      next_id = 3\<rparr>"
  let ?data = "\<lparr>title = ascii ''c'', work = ascii ''B'', status = ascii ''done'', summary = None\<rparr>"
  have q: "query_first 2 ?db
      = Some \<lparr>title = ascii ''b'', work = ascii ''B'', status = ascii ''open'',
              summary = Some (ascii ''old''), id_pk = 2\<rparr>"
    by (simp add: query_first_def)
  have f: "storable ?data"
    by (simp add: storable_def fits_columns_def texts_def adaptable_def surrogate_def ascii_def)
  from update_plot_replaces[OF q f]
  obtain db' where u: "update_plot 2 ?data ?db =
      (Inr \<lparr>title = title ?data, work = work ?data, status = status ?data,
            summary = summary ?data, id_pk = 2\<rparr>, db')"
    by blast
  have "snd (update_plot 2 ?data ?db) =
      \<lparr>rows = [\<lparr>title = ascii ''a'', work = ascii ''A'', status = ascii ''open'',
                 summary = Some (ascii ''s''), id_pk = 1\<rparr>,
               \<lparr>title = ascii ''c'', work = ascii ''B'', status = ascii ''done'',
                 summary = None, id_pk = 2\<rparr>],
       next_id = 3\<rparr>"
    by (simp add: update_plot_def query_first_def assign_storable[OF f])
  with u have "update_plot 2 ?data ?db
   = (Inr \<lparr>title = ascii ''c'', work = ascii ''B'', status = ascii ''done'',
           summary = None, id_pk = 2\<rparr>,
      \<lparr>rows = [\<lparr>title = ascii ''a'', work = ascii ''A'', status = ascii ''open'',
                 summary = Some (ascii ''s''), id_pk = 1\<rparr>,
               \<lparr>title = ascii ''c'', work = ascii ''B'', status = ascii ''done'',
                 summary = None, id_pk = 2\<rparr>],
       next_id = 3\<rparr>)"
    by simp
  with q f show ?thesis by (intro conjI)
qed

text \<open>A body that does not fit is refused by the store and changes nothing: here a
  status of 51 characters.\<close>

lemma update_plot_refused_example:
  "update_plot 1
     \<lparr>title = ascii ''t'', work = ascii ''w'',
      status = ascii ''123456789012345678901234567890123456789012345678901'', summary = None\<rparr>
     \<lparr>rows = [\<lparr>title = ascii ''a'', work = ascii ''A'', status = ascii ''open'',
                summary = None, id_pk = 1\<rparr>],
      next_id = 2\<rparr>
   = (Inl DataError,
      \<lparr>rows = [\<lparr>title = ascii ''a'', work = ascii ''A'', status = ascii ''open'',
                 summary = None, id_pk = 1\<rparr>],
       next_id = 2\<rparr>)"
  by (simp add: update_plot_def query_first_def assign_commit_refresh_def written_def changed_def
        column_def varchar_def adaptable_def surrogate_def ascii_def)

section \<open>Delete\<close>

lemma filter_remove1:
  "distinct (map id_pk xs) \<Longrightarrow> find (\<lambda>p. id_pk p = n) xs = Some p \<Longrightarrow>
   filter (\<lambda>p. id_pk p \<noteq> n) xs = remove1 p xs"
proof (induction xs)
  case Nil
  then show ?case by simp
next
  case (Cons x xs)
  show ?case
  proof (cases "id_pk x = n")
    case True
    with Cons.prems have "p = x" and "n \<notin> id_pk ` set xs" by auto
    then have "filter (\<lambda>p. id_pk p \<noteq> n) xs = xs"
      by (auto simp: filter_id_conv)
    with True \<open>p = x\<close> show ?thesis by simp
  next
    case False
    with Cons.prems have "find (\<lambda>p. id_pk p = n) xs = Some p" and "distinct (map id_pk xs)"
      by auto
    with Cons.IH have "filter (\<lambda>p. id_pk p \<noteq> n) xs = remove1 p xs" by simp
    moreover from \<open>find (\<lambda>p. id_pk p = n) xs = Some p\<close> have "id_pk p = n"
      by (auto simp: find_Some_iff)
    ultimately show ?thesis using False by auto
  qed
qed

lemma find_filter_others: "find (\<lambda>p. id_pk p = n) (filter (\<lambda>p. id_pk p \<noteq> n) xs) = None"
  by (simp add: find_None_iff)

text \<open>
  C7. For every stored plot with id \<open>N\<close>, in a store whose \<open>id\<close> is a primary key,
  delete on \<open>N\<close> returns the dictionary with \<open>message = deleted\<close> and \<open>id = N\<close>, removes
  that row and no other (the table is one row shorter), and get on \<open>N\<close> then ends in
  the 404 \<open>HTTPException\<close>.
\<close>

theorem delete_plot_removes:
  assumes "primary_key db" and "query_first plot_id db = Some plot"
  shows "\<exists>db'. delete_plot plot_id db =
            (Inr [(''message'', JStr ''deleted''), (''id'', JInt plot_id)], db')
          \<and> rows db' = remove1 plot (rows db)
          \<and> length (rows db') + 1 = length (rows db)
          \<and> get_plot plot_id db' = (Inl (HTTPException 404 ''Plot not found''), db')"
proof -
  let ?db' = "delete_commit plot_id db"
  have d: "delete_plot plot_id db =
            (Inr [(''message'', JStr ''deleted''), (''id'', JInt plot_id)], ?db')"
    using assms(2) by (simp add: delete_plot_def)
  have r: "rows ?db' = remove1 plot (rows db)"
    using assms filter_remove1[of "rows db" plot_id plot]
    by (simp add: delete_commit_def primary_key_def query_first_def)
  have "plot \<in> set (rows db)"
    using assms(2) by (auto simp: query_first_def find_Some_iff)
  with r have l: "length (rows ?db') + 1 = length (rows db)"
    by (simp add: length_remove1) (metis One_nat_def Suc_pred length_pos_if_in_set)
  have g: "get_plot plot_id ?db' = (Inl (HTTPException 404 ''Plot not found''), ?db')"
    by (simp add: get_plot_def query_first_def delete_commit_def find_filter_others not_found_def)
  from d r l g show ?thesis by blast
qed

theorem delete_plot_removes_witness:
  "primary_key
     \<lparr>rows = [\<lparr>title = ascii ''a'', work = ascii ''A'', status = ascii ''open'', summary = None, id_pk = 4\<rparr>,
              \<lparr>title = ascii ''b'', work = ascii ''B'', status = ascii ''open'', summary = None, id_pk = 5\<rparr>],
      next_id = 6\<rparr>
 \<and> query_first 5
     \<lparr>rows = [\<lparr>title = ascii ''a'', work = ascii ''A'', status = ascii ''open'', summary = None, id_pk = 4\<rparr>,
              \<lparr>title = ascii ''b'', work = ascii ''B'', status = ascii ''open'', summary = None, id_pk = 5\<rparr>],
      next_id = 6\<rparr>
   = Some \<lparr>title = ascii ''b'', work = ascii ''B'', status = ascii ''open'', summary = None, id_pk = 5\<rparr>
 \<and> delete_plot 5
     \<lparr>rows = [\<lparr>title = ascii ''a'', work = ascii ''A'', status = ascii ''open'', summary = None, id_pk = 4\<rparr>,
              \<lparr>title = ascii ''b'', work = ascii ''B'', status = ascii ''open'', summary = None, id_pk = 5\<rparr>],
      next_id = 6\<rparr>
   = (Inr [(''message'', JStr ''deleted''), (''id'', JInt 5)],
      \<lparr>rows = [\<lparr>title = ascii ''a'', work = ascii ''A'', status = ascii ''open'', summary = None, id_pk = 4\<rparr>],
       next_id = 6\<rparr>)
 \<and> fst (get_plot 5
     \<lparr>rows = [\<lparr>title = ascii ''a'', work = ascii ''A'', status = ascii ''open'', summary = None, id_pk = 4\<rparr>],
      next_id = 6\<rparr>)
   = Inl (HTTPException 404 ''Plot not found'')"
proof -
  let ?db = "\<lparr>rows = [\<lparr>title = ascii ''a'', work = ascii ''A'', status = ascii ''open'', summary = None, id_pk = 4\<rparr>,
              \<lparr>title = ascii ''b'', work = ascii ''B'', status = ascii ''open'', summary = None, id_pk = 5\<rparr>],
      next_id = 6\<rparr>"
  have k: "primary_key ?db"
    by (simp add: primary_key_def)
  have q: "query_first 5 ?db
      = Some \<lparr>title = ascii ''b'', work = ascii ''B'', status = ascii ''open'', summary = None, id_pk = 5\<rparr>"
    by (simp add: query_first_def)
  from delete_plot_removes[OF k q]
  obtain db' where d: "delete_plot 5 ?db =
        (Inr [(''message'', JStr ''deleted''), (''id'', JInt 5)], db')"
    and g: "get_plot 5 db' = (Inl (HTTPException 404 ''Plot not found''), db')"
    by blast
  have "snd (delete_plot 5 ?db) =
      \<lparr>rows = [\<lparr>title = ascii ''a'', work = ascii ''A'', status = ascii ''open'', summary = None, id_pk = 4\<rparr>],
       next_id = 6\<rparr>"
    by (simp add: delete_plot_def query_first_def delete_commit_def)
  with d have e: "db' =
      \<lparr>rows = [\<lparr>title = ascii ''a'', work = ascii ''A'', status = ascii ''open'', summary = None, id_pk = 4\<rparr>],
       next_id = 6\<rparr>"
    by simp
  from d e have 1: "delete_plot 5 ?db
   = (Inr [(''message'', JStr ''deleted''), (''id'', JInt 5)],
      \<lparr>rows = [\<lparr>title = ascii ''a'', work = ascii ''A'', status = ascii ''open'', summary = None, id_pk = 4\<rparr>],
       next_id = 6\<rparr>)"
    by simp
  from g e have 2: "fst (get_plot 5
     \<lparr>rows = [\<lparr>title = ascii ''a'', work = ascii ''A'', status = ascii ''open'', summary = None, id_pk = 4\<rparr>],
      next_id = 6\<rparr>)
   = Inl (HTTPException 404 ''Plot not found'')"
    by simp
  from k q 1 2 show ?thesis by (intro conjI)
qed

section \<open>Sessions\<close>

lemma fresh_session: "sessions_wf sv \<Longrightarrow> next_session sv \<notin> set (open_sessions sv)"
  by (auto simp: sessions_wf_def filter_empty_conv)

lemma get_db_sessions:
  assumes "sessions_wf sv"
  shows "open_sessions (snd (get_db endpoint sv)) = open_sessions sv
       \<and> sessions_wf (snd (get_db endpoint sv))"
proof -
  obtain r st where e: "endpoint (database sv) = (r, st)"
    by (cases "endpoint (database sv)")
  have o: "removeAll (next_session sv) (open_sessions sv) = open_sessions sv"
    using fresh_session[OF assms] by simp
  have w: "filter (\<lambda>db. Suc (next_session sv) \<le> db) (open_sessions sv) = []"
    using assms by (auto simp: sessions_wf_def filter_empty_conv)
  show ?thesis
    using e o w
    by (cases r) (simp_all add: get_db_def SessionLocal_def db_close_def sessions_wf_def)
qed

text \<open>
  C9. For every request to any endpoint, the sessions open when the request is over are
  those that were open before it: the session that \<open>get_db\<close> opened for the request is
  closed, whether the endpoint returned or raised.
\<close>

theorem session_released:
  assumes "sessions_wf sv"
  shows "open_sessions (snd (route lower request sv)) = open_sessions sv
       \<and> sessions_wf (snd (route lower request sv))"
  using assms by (cases request) (simp_all add: get_db_sessions)

theorem session_released_witness:
  "sessions_wf initial_server
 \<and> fst (route ascii_lower (GetPlot 7) initial_server) = Inl (HTTPException 404 ''Plot not found'')
 \<and> open_sessions (snd (route ascii_lower (GetPlot 7) initial_server)) = open_sessions initial_server
 \<and> sessions_wf (snd (route ascii_lower (GetPlot 7) initial_server))"
proof -
  have w: "sessions_wf initial_server"
    by (simp add: sessions_wf_def initial_server_def)
  have r: "fst (route ascii_lower (GetPlot 7) initial_server) = Inl (HTTPException 404 ''Plot not found'')"
    by (simp add: get_db_def SessionLocal_def returning_def get_plot_def query_first_def
          initial_server_def empty_store_def not_found_def)
  from session_released[OF w, of ascii_lower "GetPlot 7"] w r show ?thesis by simp
qed

text \<open>Every endpoint but \<open>ping\<close> does open a session.\<close>

lemma route_opens_session:
  "request \<noteq> Ping \<Longrightarrow> next_session (snd (route lower request sv)) = Suc (next_session sv)"
  by (cases request)
     (simp_all add: get_db_def SessionLocal_def db_close_def split: prod.splits sum.splits)

section \<open>Create\<close>

lemma create_plot_commits:
  assumes "storable data"
  shows "create_plot data db =
           (Inl (NameError ''plotF''),
            db\<lparr>rows := rows db @ [\<lparr>title = title data, work = work data, status = status data,
                                   summary = summary data, id_pk = next_id db\<rparr>],
               next_id := next_id db + 1\<rparr>)"
  using assms
  by (simp add: create_plot_def add_commit_refresh_def columns_storable Let_def)

lemma create_plot_never_returns: "fst (create_plot data db) \<noteq> Inr plot"
  by (simp add: create_plot_def split: sum.splits prod.splits)

text \<open>A body that the driver cannot bind is not inserted.\<close>

lemma create_plot_nul_example:
  "create_plot \<lparr>title = [0], work = ascii ''W'', status = ascii ''open'', summary = None\<rparr>
     empty_store
   = (Inl ValueError, empty_store)"
  by (simp add: create_plot_def add_commit_refresh_def columns_def texts_def adaptable_def)

lemma unused_id: "wf_store db \<Longrightarrow> next_id db \<notin> id_pk ` set (rows db)"
  by (auto simp: wf_store_def filter_empty_conv)

lemma find_append_new:
  "n \<notin> id_pk ` set xs \<Longrightarrow> id_pk r = n \<Longrightarrow> find (\<lambda>p. id_pk p = n) (xs @ [r]) = Some r"
  by (induction xs) auto

lemma created_row_stored:
  assumes "wf_store db" and "storable data"
  shows "get_plot (next_id db) (snd (create_plot data db)) =
           (Inr \<lparr>title = title data, work = work data, status = status data,
                 summary = summary data, id_pk = next_id db\<rparr>,
            snd (create_plot data db))"
  using find_append_new[OF unused_id[OF assms(1)]]
  by (simp add: create_plot_commits[OF assms(2)] get_plot_def query_first_def)

text \<open>
  C1. Create is to return the new plot with its id and the four submitted values. The
  endpoint instead ends in \<open>NameError\<close>: on the empty store, the body with title
  \<open>Dragon Rises\<close> is inserted under id 1 and committed, and then the name \<open>plotF\<close> is
  not bound.
\<close>

theorem create_plot_name_error:
  "create_plot \<lparr>title = ascii ''Dragon Rises'', work = ascii ''A'', status = ascii ''open'',
                summary = Some (ascii ''s'')\<rparr>
     empty_store
   = (Inl (NameError ''plotF''),
      \<lparr>rows = [\<lparr>title = ascii ''Dragon Rises'', work = ascii ''A'', status = ascii ''open'',
                 summary = Some (ascii ''s''), id_pk = 1\<rparr>],
       next_id = 2\<rparr>)"
  by (simp add: create_plot_def add_commit_refresh_def columns_def varchar_def texts_def
        adaptable_def surrogate_def ascii_def empty_store_def Let_def)

text \<open>
  C6. Creating a plot and fetching it by the returned id is to give the record that the
  create returned. The create request returns no record and no id, only the
  \<open>NameError\<close>; the row it committed is there, and a get on the id the sequence gave it
  (1 on the empty store) returns the submitted values.
\<close>

theorem create_then_get_no_id:
  "fst (route ascii_lower
          (CreatePlot \<lparr>title = ascii ''T'', work = ascii ''W'', status = ascii ''open'',
                       summary = None\<rparr>)
          initial_server)
   = Inl (NameError ''plotF'')
 \<and> fst (route ascii_lower (GetPlot 1)
          (snd (route ascii_lower
                  (CreatePlot \<lparr>title = ascii ''T'', work = ascii ''W'', status = ascii ''open'',
                               summary = None\<rparr>)
                  initial_server)))
   = Inr (Plot \<lparr>title = ascii ''T'', work = ascii ''W'', status = ascii ''open'',
                summary = None, id_pk = 1\<rparr>)"
  by (simp add: get_db_def SessionLocal_def db_close_def returning_def initial_server_def
        create_plot_def add_commit_refresh_def columns_def varchar_def texts_def
        adaptable_def surrogate_def ascii_def empty_store_def Let_def
        get_plot_def query_first_def)

section \<open>What every store the service reaches satisfies\<close>

lemma wf_empty_store: "wf_store empty_store"
  by (simp add: wf_store_def primary_key_def empty_store_def)

lemma wf_create_plot: "wf_store db \<Longrightarrow> wf_store (snd (create_plot data db))"
  by (auto simp: create_plot_def add_commit_refresh_def Let_def wf_store_def primary_key_def
        filter_empty_conv split: sum.splits)

lemma wf_store_ids:
  "wf_store db \<longleftrightarrow>
     distinct (map id_pk (rows db)) \<and> (\<forall>i \<in> set (map id_pk (rows db)). i < next_id db)"
  by (auto simp: wf_store_def primary_key_def filter_empty_conv)

lemma assign_ids:
  assumes "assign_commit_refresh plot data db = Inr (plot', db')"
  shows "map id_pk (rows db') = map id_pk (rows db) \<and> next_id db' = next_id db"
proof -
  from assms have r: "id_pk plot' = id_pk plot"
    and d: "db' = db\<lparr>rows := map (\<lambda>p. if id_pk p = id_pk plot then plot' else p) (rows db)\<rparr>"
    by (auto simp: assign_commit_refresh_def Let_def split: if_splits option.splits)
  from ids_map_update[OF r, of "rows db"] d show ?thesis by simp
qed

lemma wf_update_plot:
  assumes "wf_store db"
  shows "wf_store (snd (update_plot plot_id data db))"
proof (cases "query_first plot_id db")
  case None
  with assms show ?thesis by (simp add: update_plot_def)
next
  case (Some plot)
  show ?thesis
  proof (cases "assign_commit_refresh plot data db")
    case (Inl e)
    with Some assms show ?thesis by (simp add: update_plot_def)
  next
    case (Inr r)
    obtain plot' db' where r: "r = (plot', db')" by (cases r)
    with Inr Some have s: "snd (update_plot plot_id data db) = db'"
      by (simp add: update_plot_def)
    from assign_ids[OF Inr[unfolded r]] have "wf_store db' = wf_store db"
      unfolding wf_store_ids by (simp only:)
    with assms s show ?thesis by simp
  qed
qed

lemma wf_delete_plot: "wf_store db \<Longrightarrow> wf_store (snd (delete_plot plot_id db))"
  by (auto simp: delete_plot_def delete_commit_def wf_store_def primary_key_def
        filter_empty_conv distinct_map_filter split: option.splits)

lemma wf_route:
  assumes "wf_store (database sv)"
  shows "wf_store (database (snd (route lower request sv)))"
proof (cases request)
  case Ping
  with assms show ?thesis by simp
next
  case (ListPlots w s q)
  with assms show ?thesis
    by (simp add: get_db_def SessionLocal_def db_close_def returning_def list_plots_query)
next
  case (GetPlot n)
  with assms show ?thesis
    by (simp add: get_db_def SessionLocal_def db_close_def returning_def get_plot_def
          split: option.splits)
next
  case (CreatePlot d)
  with wf_create_plot[OF assms, of d] show ?thesis
    by (simp add: get_db_def SessionLocal_def db_close_def returning_def
          split: prod.splits sum.splits)
next
  case (UpdatePlot n d)
  with wf_update_plot[OF assms, of n d] show ?thesis
    by (simp add: get_db_def SessionLocal_def db_close_def returning_def
          split: prod.splits sum.splits)
next
  case (DeletePlot n)
  with wf_delete_plot[OF assms, of n] show ?thesis
    by (simp add: get_db_def SessionLocal_def db_close_def returning_def
          split: prod.splits sum.splits)
qed

lemma route_sessions:
  assumes "sessions_wf sv"
  shows "open_sessions (snd (route lower request sv)) = open_sessions sv
       \<and> sessions_wf (snd (route lower request sv))"
  using assms by (cases request) (simp_all add: get_db_sessions)

lemma run_invariant:
  "wf_store (database sv) \<Longrightarrow> sessions_wf sv \<Longrightarrow>
   wf_store (database (run lower requests sv)) \<and> sessions_wf (run lower requests sv)
   \<and> open_sessions (run lower requests sv) = open_sessions sv"
proof (induction requests arbitrary: sv)
  case Nil
  then show ?case by simp
next
  case (Cons r rs)
  from Cons.prems have "wf_store (database (snd (route lower r sv)))"
    and "sessions_wf (snd (route lower r sv))"
    and "open_sessions (snd (route lower r sv)) = open_sessions sv"
    by (simp_all add: wf_route route_sessions)
  with Cons.IH[of "snd (route lower r sv)"] show ?case by simp
qed

lemma reachable_invariant:
  "wf_store (database (run lower requests initial_server))
 \<and> primary_key (database (run lower requests initial_server))
 \<and> open_sessions (run lower requests initial_server) = []"
proof -
  have "wf_store (database initial_server)" and "sessions_wf initial_server"
    by (simp_all add: initial_server_def wf_empty_store sessions_wf_def)
  from run_invariant[OF this, of lower requests] show ?thesis
    by (simp add: wf_store_def initial_server_def)
qed

end
